theory Spec2Isabelle
  imports Main "HOL-Library.Char_ord" "HOL-Library.List_Lexorder" "HOL-Library.Multiset"
begin

section \<open>Python strings and integers as used by app.py\<close>

text \<open>
  A Python \<open>str\<close> is modelled as a HOL \<open>string\<close> whose characters are read as the
  code points 0 to 255.  On that range \<open>str.isspace\<close>, \<open>str.lower\<close> and the decimal
  digits accepted by \<open>int\<close> are the tables below; code points above 255 are outside the
  model.  SQLite compares TEXT with the BINARY collation, which on these strings is the
  lexicographic order of the code points (the order of \<open>HOL-Library.List_Lexorder\<close>
  over \<open>HOL-Library.Char_ord\<close>).
\<close>

definition code_point :: "char \<Rightarrow> nat" where
  "code_point c = of_char c"

definition isspace :: "char \<Rightarrow> bool" where
  "isspace c = (let n = code_point c in
     (9 \<le> n \<and> n \<le> 13) \<or> (28 \<le> n \<and> n \<le> 32) \<or> n = 133 \<or> n = 160)"

definition strip :: "string \<Rightarrow> string" where
  "strip s = rev (dropWhile isspace (rev (dropWhile isspace s)))"

definition lower_char :: "char \<Rightarrow> char" where
  "lower_char c = (let n = code_point c in
     if (65 \<le> n \<and> n \<le> 90) \<or> (192 \<le> n \<and> n \<le> 222 \<and> n \<noteq> 215)
     then char_of (n + 32) else c)"

definition lower :: "string \<Rightarrow> string" where
  "lower s = map lower_char s"

datatype py_exception = ValueError | OverflowError

definition isdigit :: "char \<Rightarrow> bool" where
  "isdigit c = (let n = code_point c in 48 \<le> n \<and> n \<le> 57)"

definition digit_value :: "char \<Rightarrow> int" where
  "digit_value c = int (code_point c) - 48"

text \<open>
  \<open>int(s)\<close> for a string argument, base 10: surrounding whitespace is dropped, one
  sign is allowed, then decimal digits follow, where a single underscore may stand between
  two digits.  Anything else raises \<open>ValueError\<close>, which is the result \<open>None\<close> here.
\<close>

fun digits_from :: "int \<Rightarrow> string \<Rightarrow> int option" where
  "digits_from acc [] = Some acc"
| "digits_from acc (c # cs) =
     (if isdigit c then digits_from (10 * acc + digit_value c) cs
      else if c = CHR ''_'' then
        (case cs of [] \<Rightarrow> None
         | d # ds \<Rightarrow> if isdigit d then digits_from acc cs else None)
      else None)"

definition unsigned_int :: "string \<Rightarrow> int option" where
  "unsigned_int s = (case s of [] \<Rightarrow> None
     | c # cs \<Rightarrow> if isdigit c then digits_from 0 s else None)"

definition py_int :: "string \<Rightarrow> int option" where
  "py_int s = (case strip s of [] \<Rightarrow> None
     | c # cs \<Rightarrow>
         if c = CHR ''-'' then map_option uminus (unsigned_int cs)
         else if c = CHR ''+'' then unsigned_int cs
         else unsigned_int (c # cs))"

text \<open>
  The \<open>sqlite3\<close> module binds a Python integer to a statement parameter only when it
  fits a signed 64-bit integer, and raises \<open>OverflowError\<close> otherwise.
\<close>

definition sqlite_int :: "int \<Rightarrow> py_exception + int" where
  "sqlite_int i = (if - (2 ^ 63) \<le> i \<and> i < 2 ^ 63 then Inr i else Inl OverflowError)"

section \<open>The tables of init_db\<close>

text \<open>
  One record per table, the columns in the order of the \<open>CREATE TABLE\<close> statements;
  a column without \<open>NOT NULL\<close> is an option.  A table is the list of its rows in
  insertion order.
\<close>

record user =
  u_id :: int
  u_name :: string
  u_email :: string
  u_password_hash :: string
  u_created_at :: string

record appointment =
  a_id :: int
  a_user_id :: "int option"
  a_name :: string
  a_email :: string
  a_appt_date :: string
  a_appt_time :: string
  a_reason :: "string option"
  a_created_at :: string

record review =
  r_id :: int
  r_user_id :: "int option"
  r_name :: string
  r_rating :: int
  r_comment :: "string option"
  r_created_at :: string

record database =
  users :: "user list"
  appointments :: "appointment list"
  reviews_table :: "review list"

text \<open>
  \<open>INTEGER PRIMARY KEY AUTOINCREMENT\<close>: the new row id is one more than the largest
  row id the table has ever held.  No statement in app.py deletes a row, so that is the
  largest id in the table, and 1 for an empty table.
\<close>

definition autoincrement :: "int list \<Rightarrow> int" where
  "autoincrement ids = fold max ids 0 + 1"

section \<open>Session, request and response\<close>

text \<open>
  The Flask session is a signed cookie that only this program writes: \<open>login\<close> stores
  the integer \<open>user_id\<close> and the string \<open>user_name\<close>, and \<open>flash\<close> appends a
  (category, message) pair to the list kept under \<open>_flashes\<close>.  An absent key is
  \<open>None\<close>.
\<close>

record session =
  user_id :: "int option"
  user_name :: "string option"
  flashes :: "(string \<times> string) list"

record state =
  db :: database
  sess :: session

datatype http_method = GET | HEAD | POST

record request =
  request_method :: http_method
  form :: "string \<rightharpoonup> string"

text \<open>
  What a handler reads from outside the request: the text of
  \<open>datetime.utcnow().isoformat()\<close> and the salt drawn by \<open>generate_password_hash\<close>.
\<close>

record environment =
  utcnow_isoformat :: string
  salt :: string

text \<open>
  \<open>werkzeug.security\<close> is a library outside this repository; its two functions are
  parameters of the handlers that call them.
\<close>

record security =
  generate_password_hash :: "string \<Rightarrow> string \<Rightarrow> string"
  check_password_hash :: "string \<Rightarrow> string \<Rightarrow> bool"

datatype endpoint = Home | About | Book | Reviews | Register | Login | Logout | Profile

text \<open>
  A view returns a redirect, or a rendered template with the context it was given, or it
  raises: an exception that no handler catches leaves the view, the request ends without
  a commit, and Flask answers with status 500.  The templates are not part of the source,
  so a rendered page is its template and its context.
\<close>

datatype response =
    Redirect endpoint
  | Render_home
  | Render_about
  | Render_book "appointment list"
  | Render_reviews "(review \<times> string option) list"
  | Render_register
  | Render_login
  | Render_profile "user option"
  | Unhandled py_exception

definition form_get :: "request \<Rightarrow> string \<Rightarrow> string" where
  "form_get req k = (case form req k of None \<Rightarrow> [] | Some v \<Rightarrow> v)"

definition flash :: "string \<Rightarrow> string \<Rightarrow> state \<Rightarrow> state" where
  "flash message category st =
     st\<lparr>sess := (sess st)\<lparr>flashes := flashes (sess st) @ [(category, message)]\<rparr>\<rparr>"

definition anonymous :: session where
  "anonymous = \<lparr>user_id = None, user_name = None, flashes = []\<rparr>"

section \<open>Database helpers\<close>

definition get_user_by_email :: "database \<Rightarrow> string \<Rightarrow> user option" where
  "get_user_by_email d e = find (\<lambda>u. u_email u = e) (users d)"

definition get_user_by_id :: "database \<Rightarrow> int option \<Rightarrow> user option" where
  "get_user_by_id d i = (case i of None \<Rightarrow> None
     | Some n \<Rightarrow> find (\<lambda>u. u_id u = n) (users d))"

text \<open>
  \<open>ORDER BY created_at DESC\<close>.  SQL leaves the order of rows with equal keys open; the
  model takes the reverse of a stable ascending sort.
\<close>

definition order_by_desc :: "('a \<Rightarrow> string) \<Rightarrow> 'a list \<Rightarrow> 'a list" where
  "order_by_desc key rows = rev (sort_key key rows)"

definition select_appointments :: "database \<Rightarrow> int option \<Rightarrow> appointment list" where
  "select_appointments d owner = (case owner of None \<Rightarrow> []
     | Some u \<Rightarrow> order_by_desc a_created_at
                  (filter (\<lambda>a. a_user_id a = Some u) (appointments d)))"

definition select_reviews :: "database \<Rightarrow> (review \<times> string option) list" where
  "select_reviews d =
     map (\<lambda>r. (r, map_option u_email (get_user_by_id d (r_user_id r))))
         (order_by_desc r_created_at (reviews_table d))"

definition insert_user :: "string \<Rightarrow> string \<Rightarrow> string \<Rightarrow> string \<Rightarrow> database \<Rightarrow> database" where
  "insert_user n e h t d =
     d\<lparr>users := users d @
        [\<lparr>u_id = autoincrement (map u_id (users d)), u_name = n, u_email = e,
          u_password_hash = h, u_created_at = t\<rparr>]\<rparr>"

definition insert_appointment ::
  "int option \<Rightarrow> string \<Rightarrow> string \<Rightarrow> string \<Rightarrow> string \<Rightarrow> string \<Rightarrow> string \<Rightarrow> database \<Rightarrow> database" where
  "insert_appointment uid n e dt tm rs t d =
     d\<lparr>appointments := appointments d @
        [\<lparr>a_id = autoincrement (map a_id (appointments d)), a_user_id = uid, a_name = n,
          a_email = e, a_appt_date = dt, a_appt_time = tm, a_reason = Some rs,
          a_created_at = t\<rparr>]\<rparr>"

definition insert_review ::
  "int option \<Rightarrow> string \<Rightarrow> int \<Rightarrow> string \<Rightarrow> string \<Rightarrow> database \<Rightarrow> database" where
  "insert_review uid n rt c t d =
     d\<lparr>reviews_table := reviews_table d @
        [\<lparr>r_id = autoincrement (map r_id (reviews_table d)), r_user_id = uid, r_name = n,
          r_rating = rt, r_comment = Some c, r_created_at = t\<rparr>]\<rparr>"

section \<open>The views\<close>

type_synonym view = "environment \<Rightarrow> request \<Rightarrow> state \<Rightarrow> response \<times> state"

definition login_required :: "view \<Rightarrow> view" where
  "login_required f env req st =
     (if user_id (sess st) = None
      then (Redirect Login, flash ''Please log in to access that page.'' ''warning'' st)
      else f env req st)"

definition home :: view where
  "home env req st = (Render_home, st)"

definition about :: view where
  "about env req st = (Render_about, st)"

text \<open>The body of \<open>book\<close>, and the view that the decorator makes of it.\<close>

definition book :: view where
  "book env req st =
     (if request_method req = POST then
        (let name = strip (form_get req ''name'');
             email = strip (form_get req ''email'');
             appt_date = strip (form_get req ''date'');
             appt_time = strip (form_get req ''time'');
             reason = strip (form_get req ''reason'')
         in if \<not> (name \<noteq> [] \<and> email \<noteq> [] \<and> appt_date \<noteq> [] \<and> appt_time \<noteq> [])
            then (Redirect Book, flash ''Please fill all required fields.'' ''danger'' st)
            else (Redirect Book,
                  flash ''Appointment booked successfully.'' ''success''
                    (st\<lparr>db := insert_appointment (user_id (sess st)) name email appt_date
                                 appt_time reason (utcnow_isoformat env) (db st)\<rparr>)))
      else (Render_book (select_appointments (db st) (user_id (sess st))), st))"

definition route_book :: view where
  "route_book = login_required book"

definition reviews :: view where
  "reviews env req st =
     (if request_method req = POST then
        (if user_id (sess st) = None
         then (Redirect Login, flash ''Please log in to post a review.'' ''warning'' st)
         else
           (let name = strip (form_get req ''name'');
                rating = strip (form_get req ''rating'');
                comment = strip (form_get req ''comment'')
            in if \<not> (name \<noteq> [] \<and> rating \<noteq> [])
               then (Redirect Reviews,
                     flash ''Please provide your name and a rating.'' ''danger'' st)
               else
                 (case py_int rating of
                    None \<Rightarrow> (Unhandled ValueError, st)
                  | Some i \<Rightarrow>
                      (case sqlite_int i of
                         Inl e \<Rightarrow> (Unhandled e, st)
                       | Inr v \<Rightarrow>
                           (Redirect Reviews,
                            flash ''Thanks for your review!'' ''success''
                              (st\<lparr>db := insert_review (user_id (sess st)) name v comment
                                           (utcnow_isoformat env) (db st)\<rparr>))))))
      else (Render_reviews (select_reviews (db st)), st))"

definition register :: "security \<Rightarrow> view" where
  "register lib env req st =
     (if user_id (sess st) \<noteq> None then (Redirect Home, st)
      else if request_method req = POST then
        (let name = strip (form_get req ''name'');
             email = lower (strip (form_get req ''email''));
             password = form_get req ''password''
         in if \<not> (name \<noteq> [] \<and> email \<noteq> [] \<and> password \<noteq> [])
            then (Redirect Register, flash ''Please fill all fields.'' ''danger'' st)
            else if get_user_by_email (db st) email \<noteq> None
            then (Redirect Register,
                  flash ''An account with that email already exists.'' ''warning'' st)
            else
              (let password_hash = generate_password_hash lib (salt env) password
               in (Redirect Login,
                   flash ''Registration successful. Please log in.'' ''success''
                     (st\<lparr>db := insert_user name email password_hash
                                  (utcnow_isoformat env) (db st)\<rparr>))))
      else (Render_register, st))"

text \<open>The two assignments of \<open>login\<close> that put the identity into the session.\<close>

definition start_session :: "int \<Rightarrow> string \<Rightarrow> session \<Rightarrow> session" where
  "start_session uid name s = s\<lparr>user_id := Some uid, user_name := Some name\<rparr>"

definition login :: "security \<Rightarrow> view" where
  "login lib env req st =
     (if user_id (sess st) \<noteq> None then (Redirect Home, st)
      else if request_method req = POST then
        (let email = lower (strip (form_get req ''email''));
             password = form_get req ''password''
         in case get_user_by_email (db st) email of
              None \<Rightarrow> (Redirect Login, flash ''Invalid email or password.'' ''danger'' st)
            | Some user \<Rightarrow>
                if \<not> check_password_hash lib (u_password_hash user) password
                then (Redirect Login, flash ''Invalid email or password.'' ''danger'' st)
                else (Redirect Home,
                      flash (''Welcome back, '' @ u_name user @ ''!'') ''success''
                        (st\<lparr>sess := start_session (u_id user) (u_name user) (sess st)\<rparr>)))
      else (Render_login, st))"

text \<open>\<open>session.clear()\<close> empties the whole cookie, the pending flashes included.\<close>

definition logout :: view where
  "logout env req st =
     (Redirect Home, flash ''You have been logged out.'' ''info'' (st\<lparr>sess := anonymous\<rparr>))"

definition profile :: view where
  "profile env req st = (Render_profile (get_user_by_id (db st) (user_id (sess st))), st)"

definition route_profile :: view where
  "route_profile = login_required profile"

text \<open>How a view reads the identity of the caller: \<open>session.get("user_id")\<close>.\<close>

definition resolve :: "session \<Rightarrow> int option" where
  "resolve s = user_id s"

section \<open>Example data\<close>

text \<open>
  A stand-in for the hashing library (the salt, a dollar sign, the password) and a small
  store, on which the theorems below are run.
\<close>

definition example_security :: security where
  "example_security =
     \<lparr>generate_password_hash = (\<lambda>s p. s @ CHR ''$'' # p),
      check_password_hash = (\<lambda>h p. drop (length h - Suc (length p)) h = CHR ''$'' # p)\<rparr>"

definition example_env :: environment where
  "example_env = \<lparr>utcnow_isoformat = ''2024-01-01T10:00:00'', salt = ''NaCl''\<rparr>"

definition alice :: user where
  "alice = \<lparr>u_id = 1, u_name = ''Alice'', u_email = ''a@x.com'',
             u_password_hash = ''NaCl$pw123'', u_created_at = ''2023-12-31T09:00:00''\<rparr>"

definition alice_db :: database where
  "alice_db = \<lparr>users = [alice], appointments = [], reviews_table = []\<rparr>"

definition alice_session :: session where
  "alice_session = \<lparr>user_id = Some 1, user_name = Some ''Alice'', flashes = []\<rparr>"

definition carol :: user where
  "carol = \<lparr>u_id = 3, u_name = ''Carol'', u_email = ''c@x.com'',
             u_password_hash = ''NaCl$pw789'', u_created_at = ''2024-01-02T08:00:00''\<rparr>"

definition appt_old :: appointment where
  "appt_old = \<lparr>a_id = 1, a_user_id = Some 1, a_name = ''Alice'', a_email = ''a@x.com'',
     a_appt_date = ''2024-01-01'', a_appt_time = ''10:00'', a_reason = Some ''checkup'',
     a_created_at = ''2023-12-31T09:30:00''\<rparr>"

definition appt_other :: appointment where
  "appt_other = \<lparr>a_id = 2, a_user_id = Some 2, a_name = ''Bob'', a_email = ''b@x.com'',
     a_appt_date = ''2024-01-02'', a_appt_time = ''11:00'', a_reason = Some [],
     a_created_at = ''2023-12-31T09:40:00''\<rparr>"

definition appt_new :: appointment where
  "appt_new = \<lparr>a_id = 3, a_user_id = Some 1, a_name = ''Alice'', a_email = ''a@x.com'',
     a_appt_date = ''2024-01-03'', a_appt_time = ''12:00'', a_reason = None,
     a_created_at = ''2023-12-31T09:50:00.000001''\<rparr>"

definition booked_db :: database where
  "booked_db = \<lparr>users = [alice], appointments = [appt_old, appt_other, appt_new],
     reviews_table = []\<rparr>"

section \<open>Facts about the helpers\<close>

lemma strip_Nil: "strip [] = []"
  by (simp add: strip_def)

lemma strip_all_space: "\<forall>c \<in> set s. isspace c \<Longrightarrow> strip s = []"
  unfolding strip_def by (induction s) simp_all

lemma mset_order_by_desc: "mset (order_by_desc key rows) = mset rows"
  by (simp add: order_by_desc_def)

lemma sorted_order_by_desc: "sorted_wrt (\<lambda>a b. key b \<le> key a) (order_by_desc key rows)"
proof -
  have "sorted (map key (sort_key key rows))" by simp
  then have "sorted_wrt (\<lambda>a b. key a \<le> key b) (sort_key key rows)"
    by (simp add: sorted_wrt_map)
  then show ?thesis
    by (simp add: order_by_desc_def sorted_wrt_rev)
qed

lemma db_flash: "db (flash m c st) = db st"
  by (simp add: flash_def)

lemma user_id_flash: "user_id (sess (flash m c st)) = user_id (sess st)"
  by (simp add: flash_def)

lemma find_append_new:
  "find P xs = None \<Longrightarrow> P x \<Longrightarrow> find P (xs @ [x]) = Some x"
  by (induction xs) (auto split: if_splits)

lemma find_append_later:
  "find P xs = None \<Longrightarrow> P x \<Longrightarrow> find P (xs @ x # ys) = Some x"
  by (induction xs) (auto split: if_splits)

lemma get_user_by_email_insert_user:
  assumes "get_user_by_email d e = None"
  shows "get_user_by_email (insert_user n e h t d) e =
           Some \<lparr>u_id = autoincrement (map u_id (users d)), u_name = n, u_email = e,
                 u_password_hash = h, u_created_at = t\<rparr>"
  using assms by (simp add: get_user_by_email_def insert_user_def find_append_new)

lemma reviews_unparsable_rating:
  assumes "request_method req = POST" and "user_id (sess st) \<noteq> None"
    and "strip (form_get req ''name'') \<noteq> []" and "strip (form_get req ''rating'') \<noteq> []"
    and "py_int (strip (form_get req ''rating'')) = None"
  shows "reviews env req st = (Unhandled ValueError, st)"
  using assms by (simp add: reviews_def Let_def)

lemma reviews_parsable_rating:
  assumes "request_method req = POST" and "user_id (sess st) \<noteq> None"
    and "strip (form_get req ''name'') \<noteq> []" and "strip (form_get req ''rating'') \<noteq> []"
    and "py_int (strip (form_get req ''rating'')) = Some i"
    and "- (2 ^ 63) \<le> i" and "i < 2 ^ 63"
  shows "fst (reviews env req st) = Redirect Reviews
       \<and> reviews_table (db (snd (reviews env req st))) =
           reviews_table (db st) @
             [\<lparr>r_id = autoincrement (map r_id (reviews_table (db st))),
               r_user_id = user_id (sess st), r_name = strip (form_get req ''name''),
               r_rating = i, r_comment = Some (strip (form_get req ''comment'')),
               r_created_at = utcnow_isoformat env\<rparr>]"
  using assms by (simp add: reviews_def Let_def sqlite_int_def flash_def insert_review_def)

lemma register_succeeds:
  assumes "request_method req = POST" and "user_id (sess st) = None"
    and "strip (form_get req ''name'') \<noteq> []"
    and "lower (strip (form_get req ''email'')) \<noteq> []"
    and "form_get req ''password'' \<noteq> []"
    and "get_user_by_email (db st) (lower (strip (form_get req ''email''))) = None"
  shows "register lib env req st =
           (Redirect Login,
            flash ''Registration successful. Please log in.'' ''success''
              (st\<lparr>db := insert_user (strip (form_get req ''name''))
                           (lower (strip (form_get req ''email'')))
                           (generate_password_hash lib (salt env) (form_get req ''password''))
                           (utcnow_isoformat env) (db st)\<rparr>))"
  using assms by (simp add: register_def Let_def)

section \<open>Review creation\<close>

text \<open>
  C1.  A review is posted by a logged-in user with the name \<open>Alice\<close>.  With the rating
  \<open>abc\<close> the conversion \<open>int(rating)\<close> raises \<open>ValueError\<close> inside the view:
  nothing catches it, no message is flashed, no redirect is returned, and the state is
  left as it was, so no row is written.  The empty rating, in contrast, takes the
  validation branch: a flashed message and a redirect back to the reviews page.  With
  the rating \<open>4\<close> the review is stored, and the rating column holds the integer 4.
\<close>

theorem reviews_rating_not_integer:
  "reviews example_env
     \<lparr>request_method = POST, form = [''name'' \<mapsto> ''Alice'', ''rating'' \<mapsto> ''abc'']\<rparr>
     \<lparr>db = alice_db, sess = alice_session\<rparr>
   = (Unhandled ValueError, \<lparr>db = alice_db, sess = alice_session\<rparr>)
   \<and> reviews example_env
     \<lparr>request_method = POST, form = [''name'' \<mapsto> ''Alice'', ''rating'' \<mapsto> []]\<rparr>
     \<lparr>db = alice_db, sess = alice_session\<rparr>
   = (Redirect Reviews,
      flash ''Please provide your name and a rating.'' ''danger''
        \<lparr>db = alice_db, sess = alice_session\<rparr>)
   \<and> reviews example_env
     \<lparr>request_method = POST, form = [''name'' \<mapsto> ''Alice'', ''rating'' \<mapsto> ''4'']\<rparr>
     \<lparr>db = alice_db, sess = alice_session\<rparr>
   = (Redirect Reviews,
      \<lparr>db = alice_db\<lparr>reviews_table :=
              [\<lparr>r_id = 1, r_user_id = Some 1, r_name = ''Alice'', r_rating = 4,
                r_comment = Some [], r_created_at = ''2024-01-01T10:00:00''\<rparr>]\<rparr>,
         sess = alice_session\<lparr>flashes := [(''success'', ''Thanks for your review!'')]\<rparr>\<rparr>)"
proof -
  have n: "strip ''Alice'' = ''Alice''" by code_simp
  have a: "strip ''abc'' = ''abc''" and a': "py_int ''abc'' = None" by code_simp+
  have f: "strip ''4'' = ''4''" and f': "py_int ''4'' = Some 4" by code_simp+
  have s: "sqlite_int 4 = Inr 4" by (simp add: sqlite_int_def)
  show ?thesis
    by (simp add: reviews_def form_get_def n a a' f f' s strip_Nil alice_session_def
        alice_db_def flash_def insert_review_def autoincrement_def example_env_def Let_def)
qed

section \<open>Registration and login\<close>

text \<open>
  C2, as the code has it.  When the trimmed, lowercased email of a request to
  \<open>register\<close> is the email of a stored user, the store after the request is the store
  before it, whatever else the request holds.  When moreover the request is a POST without
  an active session and its trimmed name, its normalised email and its password are not
  empty, the answer is the duplicate-email one: the warning that an account with that
  email already exists, and a redirect to the registration page.
\<close>

theorem register_duplicate_email:
  assumes "get_user_by_email (db st) (lower (strip (form_get req ''email''))) \<noteq> None"
  shows "db (snd (register lib env req st)) = db st
       \<and> (request_method req = POST \<and> user_id (sess st) = None
          \<and> strip (form_get req ''name'') \<noteq> []
          \<and> lower (strip (form_get req ''email'')) \<noteq> []
          \<and> form_get req ''password'' \<noteq> []
          \<longrightarrow> register lib env req st =
                (Redirect Register,
                 flash ''An account with that email already exists.'' ''warning'' st))"
  using assms by (simp add: register_def Let_def flash_def)

text \<open>
  The same at a concrete request: Eve registers with \<open>A@X.com\<close> behind a leading blank
  while Alice holds \<open>a@x.com\<close>.
\<close>

theorem register_duplicate_email_witness:
  "register example_security example_env
     \<lparr>request_method = POST, form = [''name'' \<mapsto> ''Eve'', ''email'' \<mapsto> '' A@X.com'',
        ''password'' \<mapsto> ''pw'']\<rparr>
     \<lparr>db = alice_db, sess = anonymous\<rparr>
   = (Redirect Register,
      \<lparr>db = alice_db, sess = \<lparr>user_id = None, user_name = None,
         flashes = [(''warning'', ''An account with that email already exists.'')]\<rparr>\<rparr>)"
proof -
  let ?r = "\<lparr>request_method = POST, form = [''name'' \<mapsto> ''Eve'', ''email'' \<mapsto> '' A@X.com'',
              ''password'' \<mapsto> ''pw'']\<rparr>"
  let ?st = "\<lparr>db = alice_db, sess = anonymous\<rparr>"
  have e: "lower (strip '' A@X.com'') = ''a@x.com''" by code_simp
  have n: "strip ''Eve'' = ''Eve''" by code_simp
  have dup: "get_user_by_email (db ?st) (lower (strip (form_get ?r ''email''))) \<noteq> None"
    by (simp add: form_get_def e get_user_by_email_def alice_db_def alice_def)
  from register_duplicate_email [OF dup, of example_security example_env] show ?thesis
    by (simp add: form_get_def e n anonymous_def flash_def)
qed

text \<open>
  C2 as stated fails when the name is empty: the email \<open>a@x.com\<close> belongs to Alice, yet
  the request is answered with the message of the field check, not with the
  duplicate-email warning.
\<close>

theorem register_duplicate_email_empty_name:
  "get_user_by_email alice_db (lower (strip ''a@x.com'')) = Some alice
   \<and> register example_security example_env
       \<lparr>request_method = POST, form = [''name'' \<mapsto> [], ''email'' \<mapsto> ''a@x.com'',
          ''password'' \<mapsto> ''pw123'']\<rparr>
       \<lparr>db = alice_db, sess = anonymous\<rparr>
     = (Redirect Register,
        \<lparr>db = alice_db, sess = \<lparr>user_id = None, user_name = None,
           flashes = [(''danger'', ''Please fill all fields.'')]\<rparr>\<rparr>)
   \<and> register example_security example_env
       \<lparr>request_method = POST, form = [''name'' \<mapsto> [], ''email'' \<mapsto> ''a@x.com'',
          ''password'' \<mapsto> ''pw123'']\<rparr>
       \<lparr>db = alice_db, sess = anonymous\<rparr>
     \<noteq> (Redirect Register,
        flash ''An account with that email already exists.'' ''warning''
          \<lparr>db = alice_db, sess = anonymous\<rparr>)"
proof -
  have e: "lower (strip ''a@x.com'') = ''a@x.com''" by code_simp
  show ?thesis
    by (simp add: register_def form_get_def e strip_Nil get_user_by_email_def alice_db_def
        alice_def anonymous_def flash_def)
qed

text \<open>
  C3.  Two login attempts on the same state, one with an email that no stored user has,
  one with the email of a stored user and a password that the stored hash rejects, give the
  same response and the same resulting state.  Without an active session that common
  result is the redirect to the login page with the one message
  \<open>Invalid email or password.\<close>
\<close>

theorem login_failures_indistinguishable:
  assumes "request_method r1 = POST" and "request_method r2 = POST"
    and "get_user_by_email (db st) (lower (strip (form_get r1 ''email''))) = None"
    and "get_user_by_email (db st) (lower (strip (form_get r2 ''email''))) = Some u"
    and "\<not> check_password_hash lib (u_password_hash u) (form_get r2 ''password'')"
  shows "login lib env r1 st = login lib env r2 st
       \<and> (user_id (sess st) = None \<longrightarrow>
            login lib env r1 st =
              (Redirect Login, flash ''Invalid email or password.'' ''danger'' st))"
  using assms by (simp add: login_def)

theorem login_failures_indistinguishable_witness:
  "login example_security example_env
     \<lparr>request_method = POST, form = [''email'' \<mapsto> ''nobody@x.com'', ''password'' \<mapsto> ''pw123'']\<rparr>
     \<lparr>db = alice_db, sess = anonymous\<rparr>
   = login example_security example_env
     \<lparr>request_method = POST, form = [''email'' \<mapsto> ''A@x.com'', ''password'' \<mapsto> ''wrong'']\<rparr>
     \<lparr>db = alice_db, sess = anonymous\<rparr>
   \<and> login example_security example_env
     \<lparr>request_method = POST, form = [''email'' \<mapsto> ''nobody@x.com'', ''password'' \<mapsto> ''pw123'']\<rparr>
     \<lparr>db = alice_db, sess = anonymous\<rparr>
   = (Redirect Login,
      \<lparr>db = alice_db, sess = \<lparr>user_id = None, user_name = None,
         flashes = [(''danger'', ''Invalid email or password.'')]\<rparr>\<rparr>)"
proof -
  let ?r1 = "\<lparr>request_method = POST,
               form = [''email'' \<mapsto> ''nobody@x.com'', ''password'' \<mapsto> ''pw123'']\<rparr>"
  let ?r2 = "\<lparr>request_method = POST, form = [''email'' \<mapsto> ''A@x.com'', ''password'' \<mapsto> ''wrong'']\<rparr>"
  let ?st = "\<lparr>db = alice_db, sess = anonymous\<rparr>"
  have m1: "request_method ?r1 = POST" and m2: "request_method ?r2 = POST" by simp_all
  have e1: "lower (strip ''nobody@x.com'') = ''nobody@x.com''" by code_simp
  have e2: "lower (strip ''A@x.com'') = ''a@x.com''" by code_simp
  have n: "get_user_by_email (db ?st) (lower (strip (form_get ?r1 ''email''))) = None"
    by (simp add: form_get_def e1 get_user_by_email_def alice_db_def alice_def)
  have y: "get_user_by_email (db ?st) (lower (strip (form_get ?r2 ''email''))) = Some alice"
    by (simp add: form_get_def e2 get_user_by_email_def alice_db_def alice_def)
  have w: "\<not> check_password_hash example_security (u_password_hash alice)
              (form_get ?r2 ''password'')"
    by (simp add: form_get_def example_security_def alice_def)
  from login_failures_indistinguishable [OF m1 m2 n y w, of example_env] show ?thesis
    by (auto simp add: anonymous_def flash_def)
qed

text \<open>
  C4.  Let the hashing library accept every password against its own hash.  When a
  request to \<open>register\<close> succeeds (it is answered with the redirect to the login page),
  the store has gained one user row, built from the trimmed name, the normalised email
  and the hash of the password, under a fresh id.  Take any later state without an active
  session whose users table is the table after the registration followed by any further
  rows.  There a login with the same password and an email with the same normalisation
  (any variant in letter case or surrounding blanks) is answered with the redirect to the
  home page and the welcome message; the session then holds the id and the name of the
  registered row, so it resolves to that id, and the store is not touched by the login.
\<close>

theorem register_then_login:
  assumes hash: "\<And>s p. check_password_hash lib (generate_password_hash lib s p) p"
    and reg: "register lib env r st = (Redirect Login, st')"
    and later: "users (db st'') = users (db st') @ newer"
    and anon'': "user_id (sess st'') = None"
    and post: "request_method r' = POST"
    and email: "lower (strip (form_get r' ''email'')) = lower (strip (form_get r ''email''))"
    and password: "form_get r' ''password'' = form_get r ''password''"
  shows "users (db st') = users (db st) @ [last (users (db st'))]
       \<and> last (users (db st')) =
           \<lparr>u_id = autoincrement (map u_id (users (db st))),
            u_name = strip (form_get r ''name''),
            u_email = lower (strip (form_get r ''email'')),
            u_password_hash =
              generate_password_hash lib (salt env) (form_get r ''password''),
            u_created_at = utcnow_isoformat env\<rparr>
       \<and> login lib env' r' st'' =
           (Redirect Home,
            flash (''Welcome back, '' @ u_name (last (users (db st'))) @ ''!'') ''success''
              (st''\<lparr>sess := start_session (u_id (last (users (db st'))))
                                (u_name (last (users (db st')))) (sess st'')\<rparr>))
       \<and> resolve (sess (snd (login lib env' r' st''))) = Some (u_id (last (users (db st'))))
       \<and> db (snd (login lib env' r' st'')) = db st''"
proof -
  let ?name = "strip (form_get r ''name'')"
  let ?email = "lower (strip (form_get r ''email''))"
  let ?password = "form_get r ''password''"
  let ?hash = "generate_password_hash lib (salt env) ?password"
  let ?d = "insert_user ?name ?email ?hash (utcnow_isoformat env) (db st)"
  let ?u = "\<lparr>u_id = autoincrement (map u_id (users (db st))), u_name = ?name,
             u_email = ?email, u_password_hash = ?hash,
             u_created_at = utcnow_isoformat env\<rparr>"
  from reg have anon: "user_id (sess st) = None"
    by (auto simp: register_def split: if_splits)
  from reg anon have fresh: "get_user_by_email (db st) ?email = None"
    and st': "st' = flash ''Registration successful. Please log in.'' ''success''
                     (st\<lparr>db := ?d\<rparr>)"
    by (auto simp: register_def Let_def split: if_splits)
  from st' have d: "db st' = ?d"
    by (simp add: flash_def)
  have usrs: "users (db st') = users (db st) @ [?u]"
    unfolding d by (simp add: insert_user_def)
  then have lastu: "last (users (db st')) = ?u" by simp
  from later usrs have all: "users (db st'') = users (db st) @ ?u # newer" by simp
  from fresh have "find (\<lambda>u. u_email u = ?email) (users (db st)) = None"
    by (simp add: get_user_by_email_def)
  then have "find (\<lambda>u. u_email u = ?email) (users (db st) @ ?u # newer) = Some ?u"
    by (rule find_append_later) simp
  then have found: "get_user_by_email (db st'') ?email = Some ?u"
    by (simp add: get_user_by_email_def all)
  have ok: "check_password_hash lib (u_password_hash ?u) (form_get r' ''password'')"
    using hash password by simp
  have lg: "login lib env' r' st'' =
          (Redirect Home,
           flash (''Welcome back, '' @ u_name ?u @ ''!'') ''success''
             (st''\<lparr>sess := start_session (u_id ?u) (u_name ?u) (sess st'')\<rparr>))"
    using anon'' post email found ok by (simp add: login_def)
  have r: "resolve (sess (snd (login lib env' r' st''))) = Some (u_id ?u)"
    and dd: "db (snd (login lib env' r' st'')) = db st''"
    unfolding lg by (simp_all add: flash_def resolve_def start_session_def)
  show ?thesis
    unfolding lastu using usrs lg r dd by simp
qed

text \<open>
  Bob registers with \<open>b@x.COM\<close> behind which a blank trails, in a store that holds
  Alice; Carol registers after him.  In a fresh session Bob logs in with \<open>B@X.com\<close>:
  the session holds the id 2 of his row, neither Alice's nor Carol's.
\<close>

theorem register_then_login_witness:
  "snd (register example_security example_env
         \<lparr>request_method = POST, form = [''name'' \<mapsto> ''Bob'', ''email'' \<mapsto> ''b@x.COM '',
            ''password'' \<mapsto> ''pw456'']\<rparr>
         \<lparr>db = alice_db, sess = anonymous\<rparr>)
   = \<lparr>db = \<lparr>users = [alice,
          \<lparr>u_id = 2, u_name = ''Bob'', u_email = ''b@x.com'',
           u_password_hash = ''NaCl$pw456'', u_created_at = ''2024-01-01T10:00:00''\<rparr>],
          appointments = [], reviews_table = []\<rparr>,
        sess = \<lparr>user_id = None, user_name = None,
          flashes = [(''success'', ''Registration successful. Please log in.'')]\<rparr>\<rparr>
   \<and> login example_security example_env
      \<lparr>request_method = POST, form = [''email'' \<mapsto> ''B@X.com'', ''password'' \<mapsto> ''pw456'']\<rparr>
      \<lparr>db = \<lparr>users = [alice,
          \<lparr>u_id = 2, u_name = ''Bob'', u_email = ''b@x.com'',
           u_password_hash = ''NaCl$pw456'', u_created_at = ''2024-01-01T10:00:00''\<rparr>,
          carol], appointments = [], reviews_table = []\<rparr>,
        sess = anonymous\<rparr>
   = (Redirect Home,
      \<lparr>db = \<lparr>users = [alice,
          \<lparr>u_id = 2, u_name = ''Bob'', u_email = ''b@x.com'',
           u_password_hash = ''NaCl$pw456'', u_created_at = ''2024-01-01T10:00:00''\<rparr>,
          carol], appointments = [], reviews_table = []\<rparr>,
        sess = \<lparr>user_id = Some 2, user_name = Some ''Bob'',
          flashes = [(''success'', ''Welcome back, Bob!'')]\<rparr>\<rparr>)"
proof -
  let ?r = "\<lparr>request_method = POST, form = [''name'' \<mapsto> ''Bob'', ''email'' \<mapsto> ''b@x.COM '',
              ''password'' \<mapsto> ''pw456'']\<rparr>"
  let ?r' = "\<lparr>request_method = POST,
               form = [''email'' \<mapsto> ''B@X.com'', ''password'' \<mapsto> ''pw456'']\<rparr>"
  let ?st = "\<lparr>db = alice_db, sess = anonymous\<rparr>"
  let ?bob = "\<lparr>u_id = 2, u_name = ''Bob'', u_email = ''b@x.com'',
               u_password_hash = ''NaCl$pw456'', u_created_at = ''2024-01-01T10:00:00''\<rparr>"
  let ?st' = "\<lparr>db = \<lparr>users = [alice, ?bob], appointments = [], reviews_table = []\<rparr>,
               sess = \<lparr>user_id = None, user_name = None,
                 flashes = [(''success'', ''Registration successful. Please log in.'')]\<rparr>\<rparr>"
  let ?st'' = "\<lparr>db = \<lparr>users = [alice, ?bob, carol], appointments = [],
                      reviews_table = []\<rparr>, sess = anonymous\<rparr>"
  have e: "lower (strip ''b@x.COM '') = ''b@x.com''" by code_simp
  have e': "lower (strip ''B@X.com'') = ''b@x.com''" by code_simp
  have n: "strip ''Bob'' = ''Bob''" by code_simp
  have hash: "\<And>s p. check_password_hash example_security
                 (generate_password_hash example_security s p) p"
    by (simp add: example_security_def)
  have reg: "register example_security example_env ?r ?st = (Redirect Login, ?st')"
    by (simp add: register_def form_get_def e n get_user_by_email_def alice_db_def alice_def
        anonymous_def insert_user_def autoincrement_def flash_def example_security_def
        example_env_def)
  have later: "users (db ?st'') = users (db ?st') @ [carol]" by simp
  have anon: "user_id (sess ?st'') = None" by (simp add: anonymous_def)
  have post: "request_method ?r' = POST" by simp
  have email: "lower (strip (form_get ?r' ''email'')) = lower (strip (form_get ?r ''email''))"
    by (simp add: form_get_def e e')
  have password: "form_get ?r' ''password'' = form_get ?r ''password''"
    by (simp add: form_get_def)
  from register_then_login [OF hash reg later anon post email password, of example_env]
  have "login example_security example_env ?r' ?st'' =
          (Redirect Home,
           flash (''Welcome back, '' @ u_name (last (users (db ?st'))) @ ''!'') ''success''
             (?st''\<lparr>sess := start_session (u_id (last (users (db ?st'))))
                               (u_name (last (users (db ?st')))) (sess ?st'')\<rparr>))"
    by (elim conjE)
  moreover have "snd (register example_security example_env ?r ?st) = ?st'"
    by (simp add: reg)
  ultimately show ?thesis
    by (simp add: flash_def start_session_def anonymous_def)
qed

section \<open>Appointments\<close>

text \<open>
  C5.  On a POST to \<open>book\<close>: when the name, the email, the date or the time is empty
  after trimming, the answer is the redirect to the booking page with the message
  \<open>Please fill all required fields.\<close>, and the store, so also the appointments table, is
  what it was.  When all four are non-empty the request is accepted whatever the reason
  field holds, absent or blank included: the table has one more row, whose reason is the
  trimmed reason field.
\<close>

theorem book_validates_required_fields:
  assumes "request_method req = POST"
  shows "(strip (form_get req ''name'') = [] \<or> strip (form_get req ''email'') = []
          \<or> strip (form_get req ''date'') = [] \<or> strip (form_get req ''time'') = []
          \<longrightarrow> book env req st =
                (Redirect Book, flash ''Please fill all required fields.'' ''danger'' st)
              \<and> appointments (db (snd (book env req st))) = appointments (db st)
              \<and> db (snd (book env req st)) = db st)
       \<and> (strip (form_get req ''name'') \<noteq> [] \<and> strip (form_get req ''email'') \<noteq> []
          \<and> strip (form_get req ''date'') \<noteq> [] \<and> strip (form_get req ''time'') \<noteq> []
          \<longrightarrow> fst (book env req st) = Redirect Book
              \<and> length (appointments (db (snd (book env req st))))
                  = Suc (length (appointments (db st)))
              \<and> a_reason (last (appointments (db (snd (book env req st)))))
                  = Some (strip (form_get req ''reason'')))"
  using assms
  by (simp add: book_def Let_def flash_def insert_appointment_def)

theorem book_validates_required_fields_witness:
  "book example_env
     \<lparr>request_method = POST, form = [''name'' \<mapsto> ''  '', ''email'' \<mapsto> ''a@x.com'',
        ''date'' \<mapsto> ''2024-01-01'', ''time'' \<mapsto> ''10:00'', ''reason'' \<mapsto> ''checkup'']\<rparr>
     \<lparr>db = booked_db, sess = alice_session\<rparr>
   = (Redirect Book,
      \<lparr>db = booked_db,
        sess = alice_session\<lparr>flashes := [(''danger'', ''Please fill all required fields.'')]\<rparr>\<rparr>)
   \<and> length (appointments (db (snd (book example_env
        \<lparr>request_method = POST, form = [''name'' \<mapsto> ''Alice'', ''email'' \<mapsto> ''a@x.com'',
           ''date'' \<mapsto> ''2024-01-01'', ''time'' \<mapsto> ''10:00'']\<rparr>
        \<lparr>db = booked_db, sess = alice_session\<rparr>)))) = 4"
proof -
  let ?bad = "\<lparr>request_method = POST, form = [''name'' \<mapsto> ''  '', ''email'' \<mapsto> ''a@x.com'',
        ''date'' \<mapsto> ''2024-01-01'', ''time'' \<mapsto> ''10:00'', ''reason'' \<mapsto> ''checkup'']\<rparr>"
  let ?good = "\<lparr>request_method = POST, form = [''name'' \<mapsto> ''Alice'', ''email'' \<mapsto> ''a@x.com'',
        ''date'' \<mapsto> ''2024-01-01'', ''time'' \<mapsto> ''10:00'']\<rparr>"
  let ?st = "\<lparr>db = booked_db, sess = alice_session\<rparr>"
  have blank: "strip ''  '' = []" by code_simp
  have n: "strip ''Alice'' = ''Alice''" and e: "strip ''a@x.com'' = ''a@x.com''"
    and d: "strip ''2024-01-01'' = ''2024-01-01''" and t: "strip ''10:00'' = ''10:00''"
    by code_simp+
  have m1: "request_method ?bad = POST" and m2: "request_method ?good = POST" by simp_all
  have l: "length (appointments booked_db) = 3" by (simp add: booked_db_def)
  from book_validates_required_fields [OF m1, of example_env ?st]
       book_validates_required_fields [OF m2, of example_env ?st]
  show ?thesis
    by (simp add: form_get_def blank n e d t l flash_def alice_session_def)
qed

text \<open>
  C6.  A request to \<open>book\<close> that is not a POST, in a session that resolves to the user
  \<open>u\<close>, renders the result of the query for \<open>u\<close>.  That list holds exactly the stored
  appointments whose \<open>user_id\<close> is \<open>u\<close>, each as often as the table does; so every row
  of it is owned by \<open>u\<close>; and it is ordered by \<open>created_at\<close>, descending.
\<close>

theorem list_for_owner:
  assumes "request_method req \<noteq> POST" and "resolve (sess st) = Some u"
  shows "book env req st = (Render_book (select_appointments (db st) (Some u)), st)
       \<and> mset (select_appointments (db st) (Some u))
           = mset (filter (\<lambda>a. a_user_id a = Some u) (appointments (db st)))
       \<and> (\<forall>a \<in> set (select_appointments (db st) (Some u)). a_user_id a = Some u)
       \<and> sorted_wrt (\<lambda>a b. a_created_at b \<le> a_created_at a)
           (select_appointments (db st) (Some u))"
proof -
  let ?rows = "select_appointments (db st) (Some u)"
  have m: "mset ?rows = mset (filter (\<lambda>a. a_user_id a = Some u) (appointments (db st)))"
    by (simp add: select_appointments_def mset_order_by_desc)
  then have "set ?rows = set (filter (\<lambda>a. a_user_id a = Some u) (appointments (db st)))"
    by (rule mset_eq_setD)
  then have own: "\<forall>a \<in> set ?rows. a_user_id a = Some u" by simp
  have srt: "sorted_wrt (\<lambda>a b. a_created_at b \<le> a_created_at a) ?rows"
    by (simp add: select_appointments_def sorted_order_by_desc)
  have "book env req st = (Render_book ?rows, st)"
    using assms by (simp add: book_def resolve_def)
  with m own srt show ?thesis by blast
qed

text \<open>
  Of three stored appointments, two of Alice and one of another user, Alice is shown her
  two, the later one first.
\<close>

theorem list_for_owner_witness:
  "book example_env \<lparr>request_method = GET, form = Map.empty\<rparr> \<lparr>db = booked_db, sess = alice_session\<rparr>
     = (Render_book [appt_new, appt_old], \<lparr>db = booked_db, sess = alice_session\<rparr>)"
proof -
  have m: "request_method \<lparr>request_method = GET, form = Map.empty\<rparr> \<noteq> POST" by simp
  have r: "resolve (sess \<lparr>db = booked_db, sess = alice_session\<rparr>) = Some 1"
    by (simp add: resolve_def alice_session_def)
  have "select_appointments booked_db (Some 1) = [appt_new, appt_old]" by code_simp
  with list_for_owner [OF m r, of example_env] show ?thesis by simp
qed

section \<open>Sessions and the gate\<close>

text \<open>
  C7.  The session that \<open>login\<close> builds for the id \<open>uid\<close> and the name \<open>name\<close>
  resolves to \<open>uid\<close>.  After \<open>logout\<close> it resolves to nothing.  A second
  \<open>logout\<close> gives the response and the state of the first.
\<close>

theorem session_roundtrip:
  "resolve (start_session uid name s) = Some uid
   \<and> resolve (sess (snd (logout env req (st\<lparr>sess := start_session uid name s\<rparr>)))) = None
   \<and> logout env' req' (snd (logout env req st)) = logout env req st"
  by (simp add: resolve_def start_session_def logout_def flash_def anonymous_def)

theorem session_roundtrip_witness:
  "resolve (start_session 1 ''Alice'' anonymous) = Some 1
   \<and> snd (logout example_env \<lparr>request_method = GET, form = Map.empty\<rparr>
        \<lparr>db = alice_db, sess = start_session 1 ''Alice'' anonymous\<rparr>)
     = \<lparr>db = alice_db, sess = \<lparr>user_id = None, user_name = None,
          flashes = [(''info'', ''You have been logged out.'')]\<rparr>\<rparr>"
  using session_roundtrip [of 1 "''Alice''" anonymous example_env
      "\<lparr>request_method = GET, form = Map.empty\<rparr>" "\<lparr>db = alice_db, sess = anonymous\<rparr>"]
  by (simp add: logout_def flash_def anonymous_def)

text \<open>
  C8.  When the session resolves to no user, the decorated views \<open>book\<close> and
  \<open>profile\<close> and a POST to \<open>reviews\<close> answer with the redirect to the login page.
  The state they return is the state they were given with one warning appended to the
  flashed messages: the store is the same, and the session still resolves to no user.
\<close>

theorem gate_denies_anonymous:
  assumes "resolve (sess st) = None"
  shows "route_book env req st =
           (Redirect Login, flash ''Please log in to access that page.'' ''warning'' st)
       \<and> route_profile env req st =
           (Redirect Login, flash ''Please log in to access that page.'' ''warning'' st)
       \<and> (request_method req = POST \<longrightarrow> reviews env req st =
           (Redirect Login, flash ''Please log in to post a review.'' ''warning'' st))
       \<and> db (snd (route_book env req st)) = db st
       \<and> db (snd (route_profile env req st)) = db st
       \<and> (request_method req = POST \<longrightarrow> db (snd (reviews env req st)) = db st)
       \<and> resolve (sess (snd (route_book env req st))) = None
       \<and> resolve (sess (snd (route_profile env req st))) = None
       \<and> (request_method req = POST \<longrightarrow> resolve (sess (snd (reviews env req st))) = None)"
  using assms
  by (simp add: route_book_def route_profile_def login_required_def reviews_def resolve_def
      flash_def)

theorem gate_denies_anonymous_witness:
  "route_book example_env
     \<lparr>request_method = POST, form = [''name'' \<mapsto> ''Al'', ''email'' \<mapsto> ''a@x.com'',
        ''date'' \<mapsto> ''2024-01-01'', ''time'' \<mapsto> ''10:00'']\<rparr>
     \<lparr>db = alice_db, sess = anonymous\<rparr>
   = (Redirect Login,
      \<lparr>db = alice_db, sess = \<lparr>user_id = None, user_name = None,
         flashes = [(''warning'', ''Please log in to access that page.'')]\<rparr>\<rparr>)
   \<and> reviews example_env
     \<lparr>request_method = POST, form = [''name'' \<mapsto> ''Al'', ''rating'' \<mapsto> ''5'']\<rparr>
     \<lparr>db = alice_db, sess = anonymous\<rparr>
   = (Redirect Login,
      \<lparr>db = alice_db, sess = \<lparr>user_id = None, user_name = None,
         flashes = [(''warning'', ''Please log in to post a review.'')]\<rparr>\<rparr>)"
proof -
  have anon: "resolve (sess \<lparr>db = alice_db, sess = anonymous\<rparr>) = None"
    by (simp add: resolve_def anonymous_def)
  from gate_denies_anonymous [OF anon, of example_env
         "\<lparr>request_method = POST, form = [''name'' \<mapsto> ''Al'', ''email'' \<mapsto> ''a@x.com'',
            ''date'' \<mapsto> ''2024-01-01'', ''time'' \<mapsto> ''10:00'']\<rparr>"]
       gate_denies_anonymous [OF anon, of example_env
         "\<lparr>request_method = POST, form = [''name'' \<mapsto> ''Al'', ''rating'' \<mapsto> ''5'']\<rparr>"]
  show ?thesis
    by (simp add: flash_def anonymous_def)
qed

text \<open>
  C9.  While the session holds a user id, \<open>register\<close> and \<open>login\<close> answer every
  request, a POST with a complete form included, with the redirect to the home page, and
  return the state they were given: the same store and the same session.
\<close>

theorem active_session_redirects_home:
  assumes "user_id (sess st) \<noteq> None"
  shows "register lib env req st = (Redirect Home, st)
       \<and> login lib env req st = (Redirect Home, st)"
  using assms by (simp add: register_def login_def)

theorem active_session_redirects_home_witness:
  "register example_security example_env
     \<lparr>request_method = POST, form = [''name'' \<mapsto> ''Bob'', ''email'' \<mapsto> ''b@x.com'',
        ''password'' \<mapsto> ''pw'']\<rparr>
     \<lparr>db = alice_db, sess = alice_session\<rparr>
   = (Redirect Home, \<lparr>db = alice_db, sess = alice_session\<rparr>)
   \<and> login example_security example_env
     \<lparr>request_method = POST, form = [''email'' \<mapsto> ''a@x.com'', ''password'' \<mapsto> ''pw123'']\<rparr>
     \<lparr>db = alice_db, sess = alice_session\<rparr>
   = (Redirect Home, \<lparr>db = alice_db, sess = alice_session\<rparr>)"
proof -
  have active: "user_id (sess \<lparr>db = alice_db, sess = alice_session\<rparr>) \<noteq> None"
    by (simp add: alice_session_def)
  from active_session_redirects_home [OF active] show ?thesis by simp
qed

section \<open>Absent and blank form fields\<close>

text \<open>
  C10.  Take a POST whose form lacks the field \<open>k\<close>, and the same request with \<open>k\<close>
  set to a string of whitespace only.  If \<open>k\<close> is one of the four required fields of
  \<open>book\<close>, both requests get the same answer from \<open>book\<close>, the message of its field
  check, and the store is unchanged.  If \<open>k\<close> is the name or the rating and a user is
  logged in, both get the same answer from \<open>reviews\<close>, the message of its field check,
  and the store is unchanged.
\<close>

theorem absent_field_same_as_blank:
  assumes "request_method req = POST" and "form req k = None" and "\<forall>c \<in> set ws. isspace c"
  shows "(k \<in> {''name'', ''email'', ''date'', ''time''} \<longrightarrow>
            book env (req\<lparr>form := (form req)(k \<mapsto> ws)\<rparr>) st = book env req st
          \<and> book env req st =
              (Redirect Book, flash ''Please fill all required fields.'' ''danger'' st)
          \<and> db (snd (book env req st)) = db st)
       \<and> (k \<in> {''name'', ''rating''} \<and> user_id (sess st) \<noteq> None \<longrightarrow>
            reviews env (req\<lparr>form := (form req)(k \<mapsto> ws)\<rparr>) st = reviews env req st
          \<and> reviews env req st =
              (Redirect Reviews, flash ''Please provide your name and a rating.'' ''danger'' st)
          \<and> db (snd (reviews env req st)) = db st)"
proof -
  have absent: "strip (form_get req k) = []"
    using assms(2) by (simp add: form_get_def strip_Nil)
  have blank: "strip (form_get (req\<lparr>form := (form req)(k \<mapsto> ws)\<rparr>) k) = []"
    using assms(3) by (simp add: form_get_def strip_all_space)
  have b: "k \<in> {''name'', ''email'', ''date'', ''time''} \<Longrightarrow>
      book env (req\<lparr>form := (form req)(k \<mapsto> ws)\<rparr>) st
        = (Redirect Book, flash ''Please fill all required fields.'' ''danger'' st)
      \<and> book env req st
        = (Redirect Book, flash ''Please fill all required fields.'' ''danger'' st)"
    using assms(1) absent blank by (auto simp: book_def Let_def)
  have r: "k \<in> {''name'', ''rating''} \<Longrightarrow> user_id (sess st) \<noteq> None \<Longrightarrow>
      reviews env (req\<lparr>form := (form req)(k \<mapsto> ws)\<rparr>) st
        = (Redirect Reviews, flash ''Please provide your name and a rating.'' ''danger'' st)
      \<and> reviews env req st
        = (Redirect Reviews, flash ''Please provide your name and a rating.'' ''danger'' st)"
    using assms(1) absent blank by (auto simp: reviews_def Let_def)
  show ?thesis using b r by (simp add: db_flash)
qed

text \<open>
  A booking form without a date, and one whose date is a blank and a tab; a review form
  without a rating, and one whose rating is two blanks.
\<close>

theorem absent_field_same_as_blank_witness:
  "book example_env
     \<lparr>request_method = POST, form = [''name'' \<mapsto> ''Alice'', ''email'' \<mapsto> ''a@x.com'',
        ''time'' \<mapsto> ''10:00'', ''date'' \<mapsto> [CHR '' '', CHR 0x09]]\<rparr>
     \<lparr>db = alice_db, sess = alice_session\<rparr>
   = book example_env
     \<lparr>request_method = POST, form = [''name'' \<mapsto> ''Alice'', ''email'' \<mapsto> ''a@x.com'',
        ''time'' \<mapsto> ''10:00'']\<rparr>
     \<lparr>db = alice_db, sess = alice_session\<rparr>
   \<and> reviews example_env
     \<lparr>request_method = POST, form = [''name'' \<mapsto> ''Alice'', ''rating'' \<mapsto> ''  '']\<rparr>
     \<lparr>db = alice_db, sess = alice_session\<rparr>
   = reviews example_env
     \<lparr>request_method = POST, form = [''name'' \<mapsto> ''Alice'']\<rparr>
     \<lparr>db = alice_db, sess = alice_session\<rparr>"
proof -
  let ?b = "\<lparr>request_method = POST, form = [''name'' \<mapsto> ''Alice'', ''email'' \<mapsto> ''a@x.com'',
              ''time'' \<mapsto> ''10:00'']\<rparr>"
  let ?r = "\<lparr>request_method = POST, form = [''name'' \<mapsto> ''Alice'']\<rparr>"
  let ?st = "\<lparr>db = alice_db, sess = alice_session\<rparr>"
  have mb: "request_method ?b = POST" and mr: "request_method ?r = POST" by simp_all
  have nb: "form ?b ''date'' = None" and nr: "form ?r ''rating'' = None" by simp_all
  have wb: "\<forall>c \<in> set [CHR '' '', CHR 0x09]. isspace c"
    by (simp add: isspace_def code_point_def)
  have wr: "\<forall>c \<in> set ''  ''. isspace c"
    by (simp add: isspace_def code_point_def)
  have active: "user_id (sess ?st) \<noteq> None" by (simp add: alice_session_def)
  from absent_field_same_as_blank [OF mb nb wb, of example_env ?st]
       absent_field_same_as_blank [OF mr nr wr, of example_env ?st] active
  show ?thesis by simp
qed

end
